theory Spec2Isabelle
  imports Main "HOL-Library.Char_ord" "HOL-Library.List_Lexorder" "HOL-Library.Multiset"
begin

section \<open>The image routes of PicStore (server/routes/images.js)\<close>

text \<open>
  The router has five routes (list, search, upload, rename, delete), the upload
  intake configured with \<^verbatim>\<open>multer\<close>, and one error-handling middleware. Each
  handler is embedded as a function from the collaborators' behaviour, the store and
  the request to the response and the new store.

  Strings are lists of 8-bit characters, read as the code points U+0000 to U+00FF.
  The database compares strings by their code points, which is the order of
  \<^typ>\<open>string\<close> here.
\<close>

subsection \<open>JavaScript strings\<close>

text \<open>The white space and line terminators of \<^verbatim>\<open>String.prototype.trim\<close>
  among these code points: TAB, LF, VT, FF, CR, SP and NBSP.\<close>

definition is_white_space :: "char \<Rightarrow> bool" where
  "is_white_space c =
     (c = CHR 0x09 \<or> c = CHR 0x0A \<or> c = CHR 0x0B \<or> c = CHR 0x0C \<or> c = CHR 0x0D \<or>
      c = CHR 0x20 \<or> c = CHR 0xA0)"

definition trim :: "string \<Rightarrow> string" where
  "trim s = rev (dropWhile is_white_space (rev (dropWhile is_white_space s)))"

text \<open>\<^verbatim>\<open>!s\<close> for a value that is a string or \<^verbatim>\<open>undefined\<close>: true for
  \<^verbatim>\<open>undefined\<close> and for the empty string.\<close>

definition falsy :: "string option \<Rightarrow> bool" where
  "falsy v = (case v of None \<Rightarrow> True | Some s \<Rightarrow> s = [])"

text \<open>\<^verbatim>\<open>s.startsWith(q)\<close>.\<close>

fun starts_with :: "string \<Rightarrow> string \<Rightarrow> bool" where
  "starts_with s [] = True"
| "starts_with [] (q # qs) = False"
| "starts_with (c # cs) (q # qs) = (c = q \<and> starts_with cs qs)"

text \<open>\<^verbatim>\<open>s.includes(q)\<close>: \<open>q\<close> occurs in \<open>s\<close> as a contiguous run.\<close>

fun str_includes :: "string \<Rightarrow> string \<Rightarrow> bool" where
  "str_includes [] q = (q = [])"
| "str_includes (c # cs) q = (starts_with (c # cs) q \<or> str_includes cs q)"

text \<open>\<^verbatim>\<open>xs.join(sep)\<close>.\<close>

fun join_str :: "string list \<Rightarrow> string \<Rightarrow> string" where
  "join_str [] sep = []"
| "join_str [x] sep = x"
| "join_str (x # y # ys) sep = x @ sep @ join_str (y # ys) sep"

text \<open>\<^verbatim>\<open>s.split(",")\<close>: the pieces between the separators; the empty string
  splits into one empty piece.\<close>

fun split_str :: "string \<Rightarrow> char \<Rightarrow> string list" where
  "split_str [] sep = [[]]"
| "split_str (c # cs) sep =
     (if c = sep then [] # split_str cs sep
      else (case split_str cs sep of
              [] \<Rightarrow> [[c]]
            | w # ws \<Rightarrow> (c # w) # ws))"

text \<open>The decimal numeral of a number, as a template literal prints
  \<^verbatim>\<open>Date.now()\<close>.\<close>

function decimal :: "nat \<Rightarrow> string" where
  "decimal n =
     (if n < 10 then [char_of (48 + n)]
      else decimal (n div 10) @ [char_of (48 + n mod 10)])"
  by pat_completeness auto
termination
  by (relation "measure id") auto

text \<open>\<^verbatim>\<open>/[^a-zA-Z0-9]/\<close>: a character that is not an ASCII letter or digit.\<close>

definition alphanumeric :: "char \<Rightarrow> bool" where
  "alphanumeric c =
     ((CHR ''a'' \<le> c \<and> c \<le> CHR ''z'') \<or> (CHR ''A'' \<le> c \<and> c \<le> CHR ''Z'') \<or>
      (CHR ''0'' \<le> c \<and> c \<le> CHR ''9''))"

text \<open>\<^verbatim>\<open>s.replace(/[^a-zA-Z0-9]/g, "_")\<close>.\<close>

definition sanitize :: "string \<Rightarrow> string" where
  "sanitize s = map (\<lambda>c. if alphanumeric c then c else CHR ''_'') s"

subsection \<open>Documents, errors and responses\<close>

type_synonym object_id = string

text \<open>An Image document. \<open>img_folder\<close> is \<open>None\<close> when the document has no
  \<^verbatim>\<open>folder\<close> field.\<close>

record image =
  img_id :: object_id
  img_name :: string
  cloudinaryUrl :: string
  cloudinaryPublicId :: string
  img_folder :: "object_id option"
  img_owner :: object_id
  img_size :: nat
  img_mimetype :: string

record folder =
  folder_id :: object_id
  folder_owner :: object_id
  folder_name :: string
  folder_path :: string

text \<open>What \<^verbatim>\<open>populate("folder", "name path")\<close> puts in place of the reference:
  the selected fields of the folder, with its identifier.\<close>

record folder_view =
  fv_id :: object_id
  fv_name :: string
  fv_path :: string

text \<open>A populated image: the document, and the expansion of its folder reference
  (\<open>None\<close> when the reference is absent or no folder has that identifier).\<close>

type_synonym populated = "image \<times> folder_view option"

text \<open>A thrown \<^verbatim>\<open>Error\<close>: its \<^verbatim>\<open>name\<close>, its \<^verbatim>\<open>message\<close>, and for a
  validation error of the persistence layer the messages of the values of its
  \<^verbatim>\<open>errors\<close> object, in order.\<close>

record js_error =
  err_name :: string
  err_message :: string
  err_errors :: "string list"

datatype body =
    Message string
  | ImageBody populated
  | ImageList "populated list"

record response =
  status :: nat
  json :: body

text \<open>The store: the two collections in their natural order, and what
  \<^verbatim>\<open>console.error\<close> has printed (the label and the error).\<close>

record world =
  images :: "image list"
  folders :: "folder list"
  console :: "(string \<times> js_error) list"

definition console_error :: "string \<Rightarrow> js_error \<Rightarrow> world \<Rightarrow> world" where
  "console_error label e w = w\<lparr>console := console w @ [(label, e)]\<rparr>"

definition reply :: "nat \<Rightarrow> body \<Rightarrow> response" where
  "reply code b = \<lparr>status = code, json = b\<rparr>"

subsection \<open>Collaborators\<close>

text \<open>
  The object storage, the clock, the identifier generator and the faults of the
  database are what a request finds around it; the handlers take them as \<open>env\<close>.
  \<open>db_fault\<close> says for each awaited database call of a handler whether it throws
  (a lost connection, an identifier the driver cannot cast, a failed validation on
  save); a call that does not throw answers from the store.
\<close>

datatype db_call =
    FolderFindOne
  | ImageFind
  | ImageFindOne
  | ImageFindDuplicate
  | ImageSave
  | ImagePopulate
  | ImageFindByIdAndDelete

record upload_options =
  opt_folder :: string
  opt_public_id :: string

record cloud_result =
  secure_url :: string
  public_id :: string

record env =
  uploadToCloudinary :: "string \<Rightarrow> upload_options \<Rightarrow> js_error + cloud_result"
  deleteFromCloudinary :: "string \<Rightarrow> js_error option"
  db_fault :: "db_call \<Rightarrow> js_error option"
  regex_engine :: "string \<Rightarrow> js_error + (string \<Rightarrow> bool)"
  date_now :: nat
  new_object_id :: object_id

definition awaited :: "env \<Rightarrow> db_call \<Rightarrow> 'a \<Rightarrow> js_error + 'a" where
  "awaited e c r = (case db_fault e c of Some err \<Rightarrow> Inl err | None \<Rightarrow> Inr r)"

subsection \<open>Queries\<close>

definition populate :: "world \<Rightarrow> image \<Rightarrow> populated" where
  "populate w i =
     (i, case img_folder i of
           None \<Rightarrow> None
         | Some f \<Rightarrow>
             map_option
               (\<lambda>d. \<lparr>fv_id = folder_id d, fv_name = folder_name d, fv_path = folder_path d\<rparr>)
               (find (\<lambda>d. folder_id d = f) (folders w)))"

text \<open>\<^verbatim>\<open>Folder.findOne({ _id: fid, owner: uid })\<close>.\<close>

definition Folder_findOne ::
  "env \<Rightarrow> world \<Rightarrow> object_id \<Rightarrow> object_id \<Rightarrow> js_error + folder option" where
  "Folder_findOne e w fid uid =
     awaited e FolderFindOne
       (find (\<lambda>d. folder_id d = fid \<and> folder_owner d = uid) (folders w))"

text \<open>\<^verbatim>\<open>Image.find({ owner, folder }).sort({ name: 1 }).populate("folder", "name path")\<close>,
  where the folder condition is an identifier or \<^verbatim>\<open>{ $exists: false }\<close>
  (\<open>None\<close>). Documents of equal name keep their natural order.\<close>

definition Image_find ::
  "env \<Rightarrow> world \<Rightarrow> object_id \<Rightarrow> object_id option \<Rightarrow> js_error + populated list" where
  "Image_find e w uid fl =
     awaited e ImageFind
       (map (populate w)
          (sort_key img_name
             (filter (\<lambda>i. img_owner i = uid \<and> img_folder i = fl) (images w))))"

text \<open>\<^verbatim>\<open>Image.findOne({ _id: id, owner: uid })\<close>.\<close>

definition Image_findOne ::
  "env \<Rightarrow> world \<Rightarrow> object_id \<Rightarrow> object_id \<Rightarrow> js_error + image option" where
  "Image_findOne e w iid uid =
     awaited e ImageFindOne
       (find (\<lambda>i. img_id i = iid \<and> img_owner i = uid) (images w))"

text \<open>\<^verbatim>\<open>Image.findOne({ owner, folder, name })\<close>, with
  \<^verbatim>\<open>_id: { $ne: excl }\<close> when \<open>excl\<close> is given. A folder condition that
  is \<^verbatim>\<open>null\<close> or \<^verbatim>\<open>undefined\<close> (\<open>None\<close>) matches the documents with
  no folder.\<close>

definition Image_findDuplicate ::
  "env \<Rightarrow> world \<Rightarrow> object_id \<Rightarrow> object_id option \<Rightarrow> string \<Rightarrow> object_id option \<Rightarrow>
     js_error + image option" where
  "Image_findDuplicate e w uid fl nm excl =
     awaited e ImageFindDuplicate
       (find (\<lambda>i. img_owner i = uid \<and> img_folder i = fl \<and> img_name i = nm \<and>
                  Some (img_id i) \<noteq> excl)
          (images w))"

subsection \<open>The regular expression of the search\<close>

text \<open>
  The search hands the trimmed query to the database as a \<^verbatim>\<open>$regex\<close> with the
  option \<^verbatim>\<open>i\<close>. The database's engine is Perl-compatible. Two kinds of pattern
  item are given their meaning here: a printable ASCII character that is not a
  metacharacter stands for itself, in either letter case, and the dot stands for any
  character but a line feed. A pattern with anything else (another metacharacter, a
  control character, a character beyond ASCII) is left to \<open>regex_engine\<close>, which
  rejects the pattern or gives the predicate it compiles to.
\<close>

datatype rx_item = Lit char | AnyChar

definition metachar :: "char \<Rightarrow> bool" where
  "metachar c = (c \<in> set (CHR 0x5C # ''^$.|?*+()[]{}''))"

definition plain_char :: "char \<Rightarrow> bool" where
  "plain_char c = (CHR 0x20 \<le> c \<and> c \<le> CHR 0x7E \<and> \<not> metachar c)"

fun parse_pattern :: "string \<Rightarrow> rx_item list option" where
  "parse_pattern [] = Some []"
| "parse_pattern (c # cs) =
     (if c = CHR ''.'' then map_option (Cons AnyChar) (parse_pattern cs)
      else if plain_char c then map_option (Cons (Lit c)) (parse_pattern cs)
      else None)"

definition lower_char :: "char \<Rightarrow> char" where
  "lower_char c =
     (case map_of (zip ''ABCDEFGHIJKLMNOPQRSTUVWXYZ'' ''abcdefghijklmnopqrstuvwxyz'') c of
        Some l \<Rightarrow> l
      | None \<Rightarrow> c)"

fun item_matches :: "rx_item \<Rightarrow> char \<Rightarrow> bool" where
  "item_matches (Lit a) c = (lower_char a = lower_char c)"
| "item_matches AnyChar c = (c \<noteq> CHR 0x0A)"

fun match_here :: "rx_item list \<Rightarrow> string \<Rightarrow> bool" where
  "match_here [] s = True"
| "match_here (r # rs) [] = False"
| "match_here (r # rs) (c # cs) = (item_matches r c \<and> match_here rs cs)"

fun match_anywhere :: "rx_item list \<Rightarrow> string \<Rightarrow> bool" where
  "match_anywhere rs [] = match_here rs []"
| "match_anywhere rs (c # cs) = (match_here rs (c # cs) \<or> match_anywhere rs cs)"

definition regex_i :: "env \<Rightarrow> string \<Rightarrow> js_error + (string \<Rightarrow> bool)" where
  "regex_i e pat =
     (case parse_pattern pat of
        Some rs \<Rightarrow> Inr (match_anywhere rs)
      | None \<Rightarrow> regex_engine e pat)"

text \<open>\<^verbatim>\<open>Image.find({ owner, name: { $regex: pat, $options: "i" } })\<close> with
  \<^verbatim>\<open>.sort({ name: 1 }).populate("folder", "name path").limit(50)\<close>: the query
  throws when the pattern is rejected.\<close>

definition Image_find_regex ::
  "env \<Rightarrow> world \<Rightarrow> object_id \<Rightarrow> string \<Rightarrow> js_error + populated list" where
  "Image_find_regex e w uid pat =
     (case db_fault e ImageFind of
        Some err \<Rightarrow> Inl err
      | None \<Rightarrow>
          (case regex_i e pat of
             Inl err \<Rightarrow> Inl err
           | Inr m \<Rightarrow>
               Inr (map (populate w)
                      (take 50
                         (sort_key img_name
                            (filter (\<lambda>i. img_owner i = uid \<and> m (img_name i)) (images w)))))))"

subsection \<open>GET / : the images of a folder\<close>

definition get_images_find ::
  "env \<Rightarrow> world \<Rightarrow> object_id \<Rightarrow> object_id option \<Rightarrow> response \<times> world" where
  "get_images_find e w uid fl =
     (case Image_find e w uid fl of
        Inl error \<Rightarrow>
          (reply 500 (Message ''Server error while fetching images''),
           console_error ''Get images error:'' error w)
      | Inr imgs \<Rightarrow> (reply 200 (ImageList imgs), w))"

definition get_images ::
  "env \<Rightarrow> world \<Rightarrow> object_id \<Rightarrow> string option \<Rightarrow> response \<times> world" where
  "get_images e w uid folder_q =
     (case folder_q of
        None \<Rightarrow> get_images_find e w uid None
      | Some f \<Rightarrow>
          if f = [] then get_images_find e w uid None
          else
            (case Folder_findOne e w f uid of
               Inl error \<Rightarrow>
                 (reply 500 (Message ''Server error while fetching images''),
                  console_error ''Get images error:'' error w)
             | Inr None \<Rightarrow> (reply 404 (Message ''Folder not found''), w)
             | Inr (Some folderDoc) \<Rightarrow> get_images_find e w uid (Some f)))"

subsection \<open>GET /search\<close>

definition get_search ::
  "env \<Rightarrow> world \<Rightarrow> object_id \<Rightarrow> string option \<Rightarrow> response \<times> world" where
  "get_search e w uid q =
     (case q of
        None \<Rightarrow> (reply 200 (ImageList []), w)
      | Some s \<Rightarrow>
          if s = [] \<or> trim s = [] then (reply 200 (ImageList []), w)
          else
            (case Image_find_regex e w uid (trim s) of
               Inl error \<Rightarrow>
                 (reply 500 (Message ''Server error while searching images''),
                  console_error ''Search images error:'' error w)
             | Inr imgs \<Rightarrow> (reply 200 (ImageList imgs), w)))"

subsection \<open>POST /upload\<close>

record upload_file =
  file_mimetype :: string
  file_size :: nat
  file_buffer :: string

text \<open>The multipart request as the route reads it: the text fields
  \<^verbatim>\<open>name\<close> and \<^verbatim>\<open>folderId\<close>, and the file part \<^verbatim>\<open>image\<close>.\<close>

record upload_request =
  body_name :: "string option"
  body_folderId :: "string option"
  req_file :: "upload_file option"

text \<open>The options of the upload call: the owner's storage folder, and the key
  made of the folder identifier, the time and the sanitized name.\<close>

definition placement :: "env \<Rightarrow> object_id \<Rightarrow> string \<Rightarrow> object_id \<Rightarrow> upload_options" where
  "placement e uid name folderId =
     \<lparr>opt_folder = ''users/'' @ uid @ ''/images'',
      opt_public_id =
        folderId @ ''_'' @ decimal (date_now e) @ ''_'' @ sanitize (trim name)\<rparr>"

text \<open>The inner \<^verbatim>\<open>try\<close> block: the upload to the object storage, the new
  document, \<^verbatim>\<open>save\<close> and \<^verbatim>\<open>populate\<close>. Whatever is thrown in it is
  returned with the store as it stands at the throw.\<close>

definition upload_and_save ::
  "env \<Rightarrow> world \<Rightarrow> object_id \<Rightarrow> string \<Rightarrow> object_id \<Rightarrow> upload_file \<Rightarrow>
     (js_error \<times> world) + (populated \<times> world)" where
  "upload_and_save e w uid name folderId f =
     (case uploadToCloudinary e (file_buffer f) (placement e uid name folderId) of
        Inl err \<Rightarrow> Inl (err, w)
      | Inr result \<Rightarrow>
          (let doc =
                 \<lparr>img_id = new_object_id e,
                  img_name = trim name,
                  cloudinaryUrl = secure_url result,
                  cloudinaryPublicId = public_id result,
                  img_folder = Some folderId,
                  img_owner = uid,
                  img_size = file_size f,
                  img_mimetype = file_mimetype f\<rparr>
           in (case db_fault e ImageSave of
                 Some err \<Rightarrow> Inl (err, w)
               | None \<Rightarrow>
                   (let w1 = w\<lparr>images := images w @ [doc]\<rparr>
                    in (case db_fault e ImagePopulate of
                          Some err \<Rightarrow> Inl (err, w1)
                        | None \<Rightarrow> Inr (populate w1 doc, w1))))))"

text \<open>The outer \<^verbatim>\<open>catch\<close> of the upload handler.\<close>

definition upload_catch :: "world \<Rightarrow> js_error \<Rightarrow> response \<times> world" where
  "upload_catch w error =
     (let w1 = console_error ''Upload image error:'' error w
      in if err_name error = ''ValidationError''
         then (reply 400 (Message (join_str (err_errors error) '', '')), w1)
         else if str_includes (err_message error) ''Invalid file type''
         then (reply 400 (Message (err_message error)), w1)
         else (reply 500 (Message ''Server error while uploading image''), w1))"

definition post_upload ::
  "env \<Rightarrow> world \<Rightarrow> object_id \<Rightarrow> upload_request \<Rightarrow> response \<times> world" where
  "post_upload e w uid req =
     (case body_name req of
        None \<Rightarrow> (reply 400 (Message ''Image name is required''), w)
      | Some name \<Rightarrow>
          if name = [] \<or> trim name = []
          then (reply 400 (Message ''Image name is required''), w)
          else
            (case body_folderId req of
               None \<Rightarrow> (reply 400 (Message ''Folder ID is required''), w)
             | Some folderId \<Rightarrow>
                 if folderId = [] then (reply 400 (Message ''Folder ID is required''), w)
                 else
                   (case req_file req of
                      None \<Rightarrow> (reply 400 (Message ''Image file is required''), w)
                    | Some f \<Rightarrow>
                        (case Folder_findOne e w folderId uid of
                           Inl error \<Rightarrow> upload_catch w error
                         | Inr None \<Rightarrow> (reply 404 (Message ''Folder not found''), w)
                         | Inr (Some folderDoc) \<Rightarrow>
                             (case Image_findDuplicate e w uid (Some folderId) (trim name) None of
                                Inl error \<Rightarrow> upload_catch w error
                              | Inr (Some existingImage) \<Rightarrow>
                                  (reply 400
                                     (Message
                                        ''Image with this name already exists in the folder''),
                                   w)
                              | Inr None \<Rightarrow>
                                  (case upload_and_save e w uid name folderId f of
                                     Inl (uploadError, w1) \<Rightarrow>
                                       (reply 500
                                          (Message ''Failed to upload image to cloud storage''),
                                        console_error ''Cloudinary upload error:'' uploadError w1)
                                   | Inr (doc, w1) \<Rightarrow>
                                       (reply 201 (ImageBody doc), w1)))))))"

subsection \<open>PUT /:id : rename\<close>

text \<open>\<^verbatim>\<open>image.save()\<close> on a document read from the store: the stored
  document with that identifier is replaced.\<close>

fun replace_image :: "image \<Rightarrow> image list \<Rightarrow> image list" where
  "replace_image d [] = []"
| "replace_image d (x # xs) =
     (if img_id x = img_id d then d # xs else x # replace_image d xs)"

definition put_image_catch :: "world \<Rightarrow> js_error \<Rightarrow> response \<times> world" where
  "put_image_catch w error =
     (reply 500 (Message ''Server error while updating image''),
      console_error ''Update image error:'' error w)"

text \<open>The duplicate check takes its folder condition from the populated
  \<^verbatim>\<open>image.folder\<close>: the identifier of the expanded folder, or \<^verbatim>\<open>null\<close>.\<close>

definition put_image ::
  "env \<Rightarrow> world \<Rightarrow> object_id \<Rightarrow> object_id \<Rightarrow> string option \<Rightarrow> response \<times> world" where
  "put_image e w uid iid name_q =
     (case name_q of
        None \<Rightarrow> (reply 400 (Message ''Image name is required''), w)
      | Some name \<Rightarrow>
          if name = [] \<or> trim name = []
          then (reply 400 (Message ''Image name is required''), w)
          else
            (case map_sum id (map_option (populate w)) (Image_findOne e w iid uid) of
               Inl error \<Rightarrow> put_image_catch w error
             | Inr None \<Rightarrow> (reply 404 (Message ''Image not found''), w)
             | Inr (Some (doc, fv)) \<Rightarrow>
                 (case Image_findDuplicate e w uid (map_option fv_id fv) (trim name)
                         (Some (img_id doc)) of
                    Inl error \<Rightarrow> put_image_catch w error
                  | Inr (Some existingImage) \<Rightarrow>
                      (reply 400
                         (Message ''Image with this name already exists in the folder''),
                       w)
                  | Inr None \<Rightarrow>
                      (case db_fault e ImageSave of
                         Some error \<Rightarrow> put_image_catch w error
                       | None \<Rightarrow>
                           (let doc1 = doc\<lparr>img_name := trim name\<rparr>
                            in (reply 200 (ImageBody (doc1, fv)),
                                w\<lparr>images := replace_image doc1 (images w)\<rparr>))))))"

subsection \<open>DELETE /:id\<close>

text \<open>\<^verbatim>\<open>Image.findByIdAndDelete(id)\<close>: the first document with that
  identifier is removed.\<close>

fun delete_by_id :: "object_id \<Rightarrow> image list \<Rightarrow> image list" where
  "delete_by_id iid [] = []"
| "delete_by_id iid (x # xs) = (if img_id x = iid then xs else x # delete_by_id iid xs)"

definition delete_image ::
  "env \<Rightarrow> world \<Rightarrow> object_id \<Rightarrow> object_id \<Rightarrow> response \<times> world" where
  "delete_image e w uid iid =
     (case Image_findOne e w iid uid of
        Inl error \<Rightarrow>
          (reply 500 (Message ''Server error while deleting image''),
           console_error ''Delete image error:'' error w)
      | Inr None \<Rightarrow> (reply 404 (Message ''Image not found''), w)
      | Inr (Some doc) \<Rightarrow>
          (let w1 = (case deleteFromCloudinary e (cloudinaryPublicId doc) of
                       Some cloudinaryError \<Rightarrow>
                         console_error ''Cloudinary delete error:'' cloudinaryError w
                     | None \<Rightarrow> w)
           in (case db_fault e ImageFindByIdAndDelete of
                 Some error \<Rightarrow>
                   (reply 500 (Message ''Server error while deleting image''),
                    console_error ''Delete image error:'' error w1)
               | None \<Rightarrow>
                   (reply 200 (Message ''Image deleted successfully''),
                    w1\<lparr>images := delete_by_id (img_id doc) (images w1)\<rparr>))))"

subsection \<open>The upload intake and the error-handling middleware\<close>

text \<open>
  \<^verbatim>\<open>process.env\<close> as the module reads it: \<open>FILE_SIZE_LIMIT\<close> is the value
  of \<^verbatim>\<open>parseInt(process.env.FILE_SIZE_LIMIT)\<close>, \<open>None\<close> for \<^verbatim>\<open>NaN\<close> (an
  unset or non-numeric variable); \<open>ALLOWED_FILE_TYPES\<close> is the variable, \<open>None\<close>
  when unset.
\<close>

record process_env =
  FILE_SIZE_LIMIT :: "int option"
  ALLOWED_FILE_TYPES :: "string option"

definition fileSize :: "process_env \<Rightarrow> int" where
  "fileSize cfg =
     (case FILE_SIZE_LIMIT cfg of
        None \<Rightarrow> 5000000
      | Some n \<Rightarrow> if n = 0 then 5000000 else n)"

definition allowedTypes :: "process_env \<Rightarrow> string list" where
  "allowedTypes cfg =
     (case ALLOWED_FILE_TYPES cfg of
        None \<Rightarrow> [''image/jpeg'', ''image/png'', ''image/gif'']
      | Some s \<Rightarrow> split_str s CHR '','')"

text \<open>What a middleware passes to \<^verbatim>\<open>next\<close>: a \<^verbatim>\<open>MulterError\<close> with its
  code and message, or another error.\<close>

datatype thrown =
    MulterError string string
  | OtherError js_error

text \<open>\<^verbatim>\<open>fileFilter\<close>: \<open>None\<close> accepts the file, \<open>Some\<close> is the error given to
  the callback.\<close>

definition fileFilter :: "process_env \<Rightarrow> upload_file \<Rightarrow> js_error option" where
  "fileFilter cfg f =
     (if file_mimetype f \<in> set (allowedTypes cfg) then None
      else Some \<lparr>err_name = ''Error'',
                 err_message =
                   ''Invalid file type. Only JPEG, PNG and GIF images are allowed.'',
                 err_errors = []\<rparr>)"

text \<open>The intake library's size check is not part of this module: whether it
  ends the intake of a file under a given \<^verbatim>\<open>limits.fileSize\<close> is a parameter,
  the verdict \<open>exceeds\<close>.\<close>

type_synonym size_check = "int \<Rightarrow> upload_file \<Rightarrow> bool"

text \<open>\<^verbatim>\<open>upload.single("image")\<close>: the file filter runs when the file part
  starts; for a file it accepts, the library ends the intake with its
  \<^verbatim>\<open>LIMIT_FILE_SIZE\<close> error when its size check says so; otherwise the
  handler runs with the fields and the file.\<close>

definition upload_single ::
  "process_env \<Rightarrow> size_check \<Rightarrow> upload_request \<Rightarrow> thrown option" where
  "upload_single cfg exceeds req =
     (case req_file req of
        None \<Rightarrow> None
      | Some f \<Rightarrow>
          (case fileFilter cfg f of
             Some err \<Rightarrow> Some (OtherError err)
           | None \<Rightarrow>
               if exceeds (fileSize cfg) f
               then Some (MulterError ''LIMIT_FILE_SIZE'' ''File too large'')
               else None))"

text \<open>The outcome of the router for a request: a response sent, or the error
  passed on with \<^verbatim>\<open>next(error)\<close> to whatever the application mounts after
  the router.\<close>

datatype outcome =
    Sent response
  | Next thrown

text \<open>\<^verbatim>\<open>router.use((error, req, res, next) => ...)\<close>.\<close>

fun multer_error_handler :: "thrown \<Rightarrow> outcome" where
  "multer_error_handler (MulterError code message) =
     (if code = ''LIMIT_FILE_SIZE''
      then Sent (reply 400 (Message ''File size too large. Maximum size is 5MB.''))
      else Sent (reply 400 (Message (''File upload error: '' @ message))))"
| "multer_error_handler (OtherError error) = Next (OtherError error)"

text \<open>The upload route behind authentication: the intake, then the handler; an
  error of the intake skips the handler and reaches the error-handling middleware.\<close>

definition upload_route ::
  "process_env \<Rightarrow> size_check \<Rightarrow> env \<Rightarrow> world \<Rightarrow> object_id \<Rightarrow> upload_request \<Rightarrow>
     outcome \<times> world" where
  "upload_route cfg exceeds e w uid req =
     (case upload_single cfg exceeds req of
        Some error \<Rightarrow> (multer_error_handler error, w)
      | None \<Rightarrow> (case post_upload e w uid req of (r, w1) \<Rightarrow> (Sent r, w1)))"

subsection \<open>The specification's search, and names that differ in letter case\<close>

text \<open>The search as the specification words it: the caller's images whose name
  contains the query as a case-insensitive substring, sorted by name ascending,
  capped at 50, each with its folder expanded.\<close>

definition search_spec :: "world \<Rightarrow> object_id \<Rightarrow> string \<Rightarrow> populated list" where
  "search_spec w uid q =
     map (populate w)
       (take 50
          (sort_key img_name
             (filter
                (\<lambda>i. img_owner i = uid \<and>
                     str_includes (map lower_char (img_name i)) (map lower_char q))
                (images w))))"

definition differ_only_in_case :: "string \<Rightarrow> string \<Rightarrow> bool" where
  "differ_only_in_case a b = (a \<noteq> b \<and> map lower_char a = map lower_char b)"

subsection \<open>A sample store and sample collaborators\<close>

definition pets :: folder where
  "pets = \<lparr>folder_id = ''f1'', folder_owner = ''alice'', folder_name = ''Pets'',
            folder_path = ''/Pets''\<rparr>"

definition pets_view :: folder_view where
  "pets_view = \<lparr>fv_id = ''f1'', fv_name = ''Pets'', fv_path = ''/Pets''\<rparr>"

definition cat :: image where
  "cat = \<lparr>img_id = ''i1'', img_name = ''cat.png'', cloudinaryUrl = ''https://cdn/k1'',
           cloudinaryPublicId = ''k1'', img_folder = Some ''f1'', img_owner = ''alice'',
           img_size = 10, img_mimetype = ''image/png''\<rparr>"

definition dog :: image where
  "dog = \<lparr>img_id = ''i2'', img_name = ''Dog.png'', cloudinaryUrl = ''https://cdn/k2'',
           cloudinaryPublicId = ''k2'', img_folder = Some ''f1'', img_owner = ''alice'',
           img_size = 20, img_mimetype = ''image/png''\<rparr>"

definition unfiled :: image where
  "unfiled = \<lparr>img_id = ''i3'', img_name = ''ant.gif'', cloudinaryUrl = ''https://cdn/k3'',
               cloudinaryPublicId = ''k3'', img_folder = None, img_owner = ''alice'',
               img_size = 30, img_mimetype = ''image/gif''\<rparr>"

definition store0 :: world where
  "store0 = \<lparr>images = [dog, cat, unfiled], folders = [pets], console = []\<rparr>"

definition failure :: "string \<Rightarrow> js_error" where
  "failure m = \<lparr>err_name = ''Error'', err_message = m, err_errors = []\<rparr>"

text \<open>Collaborators that all answer: the storage accepts every upload and every
  deletion, no database call throws, and the engine rejects the patterns left to it.\<close>

definition calm :: env where
  "calm =
     \<lparr>uploadToCloudinary =
        (\<lambda>buffer opts. Inr \<lparr>secure_url = ''https://cdn/k9'', public_id = ''k9''\<rparr>),
      deleteFromCloudinary = (\<lambda>key. None),
      db_fault = (\<lambda>c. None),
      regex_engine = (\<lambda>pat. Inl (failure ''Regular expression is invalid'')),
      date_now = 1700,
      new_object_id = ''i9''\<rparr>"

definition storage_down :: env where
  "storage_down =
     calm\<lparr>uploadToCloudinary := (\<lambda>buffer opts. Inl (failure ''storage unreachable'')),
          deleteFromCloudinary := (\<lambda>key. Some (failure ''storage unreachable''))\<rparr>"

definition name_too_long :: js_error where
  "name_too_long =
     \<lparr>err_name = ''ValidationError'',
      err_message = ''Image validation failed: name: Image name is too long'',
      err_errors = [''Image name is too long'']\<rparr>"

definition save_rejects :: env where
  "save_rejects =
     calm\<lparr>db_fault := (\<lambda>c. if c = ImageSave then Some name_too_long else None)\<rparr>"

definition png :: upload_file where
  "png = \<lparr>file_mimetype = ''image/png'', file_size = 2000, file_buffer = ''PNG''\<rparr>"

definition pdf :: upload_file where
  "pdf = \<lparr>file_mimetype = ''application/pdf'', file_size = 2000, file_buffer = ''PDF''\<rparr>"

definition upload_of :: "string \<Rightarrow> upload_file \<Rightarrow> upload_request" where
  "upload_of n f = \<lparr>body_name = Some n, body_folderId = Some ''f1'', req_file = Some f\<rparr>"

definition defaults :: process_env where
  "defaults = \<lparr>FILE_SIZE_LIMIT = None, ALLOWED_FILE_TYPES = None\<rparr>"

definition small_limit :: process_env where
  "small_limit = \<lparr>FILE_SIZE_LIMIT = Some 1000, ALLOWED_FILE_TYPES = None\<rparr>"

text \<open>A sample verdict of the size check, for the worked examples: the intake ends
  for a file with more bytes than a positive limit.\<close>

definition beyond :: size_check where
  "beyond limit f = (0 < limit \<and> limit < int (file_size f))"

section \<open>Properties\<close>

subsection \<open>Auxiliary facts\<close>

lemmas sample_defs =
  store0_def cat_def dog_def unfiled_def pets_def pets_view_def calm_def storage_down_def
  save_rejects_def name_too_long_def png_def pdf_def upload_of_def defaults_def
  small_limit_def failure_def

lemma trim_nonempty: "trim s \<noteq> [] \<Longrightarrow> s \<noteq> []"
  by (auto simp: trim_def)

lemma find_some: "\<exists>x\<in>set xs. P x \<Longrightarrow> \<exists>y. find P xs = Some y"
  by (cases "find P xs") (auto simp: find_None_iff)

lemma trim_samples:
  "trim ''   '' = []" "trim ''new.png'' = ''new.png''" "trim '' cat.png '' = ''cat.png''"
  "trim ''cat.png'' = ''cat.png''" "trim ''CAT.png'' = ''CAT.png''"
  by (simp_all add: trim_def is_white_space_def)

subsection \<open>Upload: a failed storage call leaves no record\<close>

text \<open>
  C1. An upload request that passes every validation (name, folder identifier, file,
  the caller's folder found, no image of that name in the folder) and whose call to
  the object storage fails is answered with 500 and the message
  "Failed to upload image to cloud storage"; the image collection and the folder
  collection are as before, and only the console has a new line.
\<close>

theorem upload_storage_failure:
  assumes "body_name req = Some name" and "trim name \<noteq> []"
    and "body_folderId req = Some folderId" and "folderId \<noteq> []"
    and "req_file req = Some f"
    and "Folder_findOne e w folderId uid = Inr (Some folderDoc)"
    and "Image_findDuplicate e w uid (Some folderId) (trim name) None = Inr None"
    and "uploadToCloudinary e (file_buffer f) (placement e uid name folderId) = Inl err"
  shows "post_upload e w uid req =
           (reply 500 (Message ''Failed to upload image to cloud storage''),
            console_error ''Cloudinary upload error:'' err w)
         \<and> images (snd (post_upload e w uid req)) = images w
         \<and> folders (snd (post_upload e w uid req)) = folders w"
proof -
  from assms(2) have "name \<noteq> []" by (rule trim_nonempty)
  with assms show ?thesis
    by (simp add: post_upload_def upload_and_save_def console_error_def)
qed

theorem upload_storage_failure_witness:
  "post_upload storage_down store0 ''alice'' (upload_of ''new.png'' png) =
     (reply 500 (Message ''Failed to upload image to cloud storage''),
      console_error ''Cloudinary upload error:'' (failure ''storage unreachable'') store0)
   \<and> images (snd (post_upload storage_down store0 ''alice'' (upload_of ''new.png'' png)))
       = images store0
   \<and> folders (snd (post_upload storage_down store0 ''alice'' (upload_of ''new.png'' png)))
       = folders store0"
  by (rule upload_storage_failure [where name = "''new.png''" and folderId = "''f1''"
        and f = png and folderDoc = pets])
     (simp_all add: trim_samples sample_defs Folder_findOne_def Image_findDuplicate_def
        awaited_def)

subsection \<open>Upload: the order of the checks\<close>

text \<open>
  C2. The checks of the upload handler run in a fixed order and the first that fails
  answers: a name that is missing or blank after trimming gives 400
  "Image name is required"; then a missing (or empty) folder identifier gives 400
  "Folder ID is required"; then a missing file gives 400 "Image file is required";
  then, when the folder lookup answers and no folder has that identifier and the
  caller as owner, 404 "Folder not found"; then, when an image of that owner, folder
  and trimmed name exists, 400 "Image with this name already exists in the folder".
  The store is untouched in each case.
\<close>

theorem upload_validation_order:
  "((case body_name req of None \<Rightarrow> True | Some n \<Rightarrow> trim n = []) \<longrightarrow>
      post_upload e w uid req = (reply 400 (Message ''Image name is required''), w))
   \<and> (\<forall>n. body_name req = Some n \<and> trim n \<noteq> [] \<and> falsy (body_folderId req) \<longrightarrow>
      post_upload e w uid req = (reply 400 (Message ''Folder ID is required''), w))
   \<and> (\<forall>n fid. body_name req = Some n \<and> trim n \<noteq> [] \<and> body_folderId req = Some fid \<and>
        fid \<noteq> [] \<and> req_file req = None \<longrightarrow>
      post_upload e w uid req = (reply 400 (Message ''Image file is required''), w))
   \<and> (\<forall>n fid f. body_name req = Some n \<and> trim n \<noteq> [] \<and> body_folderId req = Some fid \<and>
        fid \<noteq> [] \<and> req_file req = Some f \<and> db_fault e FolderFindOne = None \<and>
        \<not> (\<exists>d\<in>set (folders w). folder_id d = fid \<and> folder_owner d = uid) \<longrightarrow>
      post_upload e w uid req = (reply 404 (Message ''Folder not found''), w))
   \<and> (\<forall>n fid f. body_name req = Some n \<and> trim n \<noteq> [] \<and> body_folderId req = Some fid \<and>
        fid \<noteq> [] \<and> req_file req = Some f \<and> db_fault e FolderFindOne = None \<and>
        (\<exists>d\<in>set (folders w). folder_id d = fid \<and> folder_owner d = uid) \<and>
        db_fault e ImageFindDuplicate = None \<and>
        (\<exists>i\<in>set (images w). img_owner i = uid \<and> img_folder i = Some fid \<and>
                               img_name i = trim n) \<longrightarrow>
      post_upload e w uid req =
        (reply 400 (Message ''Image with this name already exists in the folder''), w))"
proof (intro conjI allI impI)
  assume "case body_name req of None \<Rightarrow> True | Some n \<Rightarrow> trim n = []"
  then show "post_upload e w uid req = (reply 400 (Message ''Image name is required''), w)"
    by (cases "body_name req") (simp_all add: post_upload_def)
next
  fix n
  assume "body_name req = Some n \<and> trim n \<noteq> [] \<and> falsy (body_folderId req)"
  then show "post_upload e w uid req = (reply 400 (Message ''Folder ID is required''), w)"
    by (auto simp: post_upload_def falsy_def dest: trim_nonempty split: option.splits)
next
  fix n fid
  assume "body_name req = Some n \<and> trim n \<noteq> [] \<and> body_folderId req = Some fid \<and>
        fid \<noteq> [] \<and> req_file req = None"
  then show "post_upload e w uid req = (reply 400 (Message ''Image file is required''), w)"
    by (auto simp: post_upload_def dest: trim_nonempty)
next
  fix n fid f
  assume a: "body_name req = Some n \<and> trim n \<noteq> [] \<and> body_folderId req = Some fid \<and>
        fid \<noteq> [] \<and> req_file req = Some f \<and> db_fault e FolderFindOne = None \<and>
        \<not> (\<exists>d\<in>set (folders w). folder_id d = fid \<and> folder_owner d = uid)"
  then have "Folder_findOne e w fid uid = Inr None"
    by (simp add: Folder_findOne_def awaited_def find_None_iff)
  with a show "post_upload e w uid req = (reply 404 (Message ''Folder not found''), w)"
    by (auto simp: post_upload_def dest: trim_nonempty)
next
  fix n fid f
  assume a: "body_name req = Some n \<and> trim n \<noteq> [] \<and> body_folderId req = Some fid \<and>
        fid \<noteq> [] \<and> req_file req = Some f \<and> db_fault e FolderFindOne = None \<and>
        (\<exists>d\<in>set (folders w). folder_id d = fid \<and> folder_owner d = uid) \<and>
        db_fault e ImageFindDuplicate = None \<and>
        (\<exists>i\<in>set (images w). img_owner i = uid \<and> img_folder i = Some fid \<and>
                               img_name i = trim n)"
  then obtain d where d: "Folder_findOne e w fid uid = Inr (Some d)"
    using find_some [of "folders w" "\<lambda>d. folder_id d = fid \<and> folder_owner d = uid"]
    by (auto simp: Folder_findOne_def awaited_def)
  from a obtain x where x: "Image_findDuplicate e w uid (Some fid) (trim n) None = Inr (Some x)"
    using find_some [of "images w" "\<lambda>i. img_owner i = uid \<and> img_folder i = Some fid \<and>
           img_name i = trim n \<and> Some (img_id i) \<noteq> None"]
    by (auto simp: Image_findDuplicate_def awaited_def)
  from a d x show "post_upload e w uid req =
        (reply 400 (Message ''Image with this name already exists in the folder''), w)"
    by (auto simp: post_upload_def dest: trim_nonempty)
qed

theorem upload_validation_order_witness:
  "post_upload calm store0 ''alice''
      \<lparr>body_name = Some ''   '', body_folderId = None, req_file = None\<rparr>
     = (reply 400 (Message ''Image name is required''), store0)
   \<and> post_upload calm store0 ''alice''
      \<lparr>body_name = Some ''new.png'', body_folderId = Some [], req_file = None\<rparr>
     = (reply 400 (Message ''Folder ID is required''), store0)
   \<and> post_upload calm store0 ''alice''
      \<lparr>body_name = Some ''new.png'', body_folderId = Some ''f7'', req_file = None\<rparr>
     = (reply 400 (Message ''Image file is required''), store0)
   \<and> post_upload calm store0 ''bob'' (upload_of '' cat.png '' png)
     = (reply 404 (Message ''Folder not found''), store0)
   \<and> post_upload calm store0 ''alice'' (upload_of '' cat.png '' png)
     = (reply 400 (Message ''Image with this name already exists in the folder''), store0)"
proof (intro conjI)
  note t = upload_validation_order [where e = calm and w = store0]
  show "post_upload calm store0 ''alice''
      \<lparr>body_name = Some ''   '', body_folderId = None, req_file = None\<rparr>
     = (reply 400 (Message ''Image name is required''), store0)"
    using t [of "\<lparr>body_name = Some ''   '', body_folderId = None, req_file = None\<rparr>" "''alice''"]
    by (simp add: trim_samples)
  show "post_upload calm store0 ''alice''
      \<lparr>body_name = Some ''new.png'', body_folderId = Some [], req_file = None\<rparr>
     = (reply 400 (Message ''Folder ID is required''), store0)"
    using t [of "\<lparr>body_name = Some ''new.png'', body_folderId = Some [], req_file = None\<rparr>" "''alice''"]
    by (simp add: trim_samples falsy_def)
  show "post_upload calm store0 ''alice''
      \<lparr>body_name = Some ''new.png'', body_folderId = Some ''f7'', req_file = None\<rparr>
     = (reply 400 (Message ''Image file is required''), store0)"
    using t [of "\<lparr>body_name = Some ''new.png'', body_folderId = Some ''f7'', req_file = None\<rparr>" "''alice''"]
    by (simp add: trim_samples)
  show "post_upload calm store0 ''bob'' (upload_of '' cat.png '' png)
     = (reply 404 (Message ''Folder not found''), store0)"
    using t [of "upload_of '' cat.png '' png" "''bob''"]
    by (simp add: trim_samples sample_defs)
  show "post_upload calm store0 ''alice'' (upload_of '' cat.png '' png)
     = (reply 400 (Message ''Image with this name already exists in the folder''), store0)"
    using t [of "upload_of '' cat.png '' png" "''alice''"]
    by (simp add: trim_samples sample_defs)
qed

subsection \<open>Delete: the record goes even when the storage does not answer\<close>

lemma find_first_id:
  "distinct (map img_id xs) \<Longrightarrow> find P xs = Some x \<Longrightarrow>
     delete_by_id (img_id x) xs = remove1 x xs"
proof (induction xs)
  case Nil
  then show ?case by simp
next
  case (Cons a xs)
  show ?case
  proof (cases "P a")
    case True
    with Cons.prems show ?thesis by simp
  next
    case False
    with Cons.prems have f: "find P xs = Some x" by simp
    then have "x \<in> set xs" by (auto simp: find_Some_iff)
    with Cons.prems have "img_id a \<noteq> img_id x" "a \<noteq> x" by auto
    with Cons.IH Cons.prems f show ?thesis by simp
  qed
qed

lemma distinct_ids: "distinct (map img_id xs) \<Longrightarrow> distinct xs"
  by (rule distinct_map [THEN iffD1, THEN conjunct1])

text \<open>
  C3. A delete request whose lookup answers: when no image has the given identifier
  and the caller as owner, the response is 404 "Image not found" and nothing changes.
  When the lookup finds the image and the removal answers, the response is 200 with
  the message "Image deleted successfully" whatever the storage deletion did; the
  document with that identifier is removed from the collection (with distinct
  identifiers the collection is the old one without the found image); a failed
  storage deletion leaves one line on the console and nothing in the response.
\<close>

theorem delete_best_effort:
  "(db_fault e ImageFindOne = None \<and>
      \<not> (\<exists>i\<in>set (images w). img_id i = iid \<and> img_owner i = uid) \<longrightarrow>
      delete_image e w uid iid = (reply 404 (Message ''Image not found''), w))
   \<and> (\<forall>x. db_fault e ImageFindOne = None \<and>
        find (\<lambda>i. img_id i = iid \<and> img_owner i = uid) (images w) = Some x \<and>
        db_fault e ImageFindByIdAndDelete = None \<longrightarrow>
        fst (delete_image e w uid iid) = reply 200 (Message ''Image deleted successfully'')
        \<and> images (snd (delete_image e w uid iid)) = delete_by_id iid (images w)
        \<and> folders (snd (delete_image e w uid iid)) = folders w
        \<and> console (snd (delete_image e w uid iid)) =
            console w @
            (case deleteFromCloudinary e (cloudinaryPublicId x) of
               None \<Rightarrow> []
             | Some err \<Rightarrow> [(''Cloudinary delete error:'', err)])
        \<and> (distinct (map img_id (images w)) \<longrightarrow>
             set (images (snd (delete_image e w uid iid))) = set (images w) - {x}))"
proof (intro conjI allI impI)
  assume "db_fault e ImageFindOne = None \<and>
      \<not> (\<exists>i\<in>set (images w). img_id i = iid \<and> img_owner i = uid)"
  then have "Image_findOne e w iid uid = Inr None"
    by (simp add: Image_findOne_def awaited_def find_None_iff)
  then show "delete_image e w uid iid = (reply 404 (Message ''Image not found''), w)"
    by (simp add: delete_image_def)
next
  fix x
  assume a: "db_fault e ImageFindOne = None \<and>
        find (\<lambda>i. img_id i = iid \<and> img_owner i = uid) (images w) = Some x \<and>
        db_fault e ImageFindByIdAndDelete = None"
  then have f: "Image_findOne e w iid uid = Inr (Some x)"
    by (simp add: Image_findOne_def awaited_def)
  from a have xid: "img_id x = iid" by (auto simp: find_Some_iff)
  from f a show "fst (delete_image e w uid iid)
                   = reply 200 (Message ''Image deleted successfully'')"
    by (simp add: delete_image_def Let_def)
  from f a xid
  show im: "images (snd (delete_image e w uid iid)) = delete_by_id iid (images w)"
    by (simp add: delete_image_def Let_def console_error_def split: option.split)
  from f a show "folders (snd (delete_image e w uid iid)) = folders w"
    by (simp add: delete_image_def Let_def console_error_def split: option.split)
  from f a show "console (snd (delete_image e w uid iid)) =
            console w @
            (case deleteFromCloudinary e (cloudinaryPublicId x) of
               None \<Rightarrow> []
             | Some err \<Rightarrow> [(''Cloudinary delete error:'', err)])"
    by (simp add: delete_image_def Let_def console_error_def split: option.split)
  assume d: "distinct (map img_id (images w))"
  with a xid have "delete_by_id iid (images w) = remove1 x (images w)"
    using find_first_id [of "images w" _ x] by auto
  with im d show "set (images (snd (delete_image e w uid iid))) = set (images w) - {x}"
    by (simp add: distinct_ids)
qed

theorem delete_best_effort_witness:
  "delete_image storage_down store0 ''bob'' ''i1''
     = (reply 404 (Message ''Image not found''), store0)
   \<and> fst (delete_image storage_down store0 ''alice'' ''i1'')
       = reply 200 (Message ''Image deleted successfully'')
   \<and> images (snd (delete_image storage_down store0 ''alice'' ''i1'')) = [dog, unfiled]
   \<and> console (snd (delete_image storage_down store0 ''alice'' ''i1''))
       = [(''Cloudinary delete error:'', failure ''storage unreachable'')]
   \<and> set (images (snd (delete_image storage_down store0 ''alice'' ''i1''))) = {dog, unfiled}"
proof -
  note t = delete_best_effort [where e = storage_down and w = store0]
  have a: "delete_image storage_down store0 ''bob'' ''i1''
             = (reply 404 (Message ''Image not found''), store0)"
    using t [of "''i1''" "''bob''", THEN conjunct1] by (simp add: sample_defs)
  have b: "fst (delete_image storage_down store0 ''alice'' ''i1'')
       = reply 200 (Message ''Image deleted successfully'')
   \<and> images (snd (delete_image storage_down store0 ''alice'' ''i1'')) = [dog, unfiled]
   \<and> console (snd (delete_image storage_down store0 ''alice'' ''i1''))
       = [(''Cloudinary delete error:'', failure ''storage unreachable'')]
   \<and> set (images (snd (delete_image storage_down store0 ''alice'' ''i1''))) = {dog, unfiled}"
    using t [of "''i1''" "''alice''", THEN conjunct2, rule_format, of cat]
    by (simp add: sample_defs)
  from a b show ?thesis by simp
qed

subsection \<open>List: the images of one folder, or the unfiled ones\<close>

lemma populate_unique_folder:
  assumes "distinct (map folder_id (folders w))" and "d \<in> set (folders w)"
    and "img_folder i = Some (folder_id d)"
  shows "snd (populate w i) =
           Some \<lparr>fv_id = folder_id d, fv_name = folder_name d, fv_path = folder_path d\<rparr>"
proof -
  have "find (\<lambda>x. folder_id x = folder_id d) xs = Some d"
    if "distinct (map folder_id xs)" and "d \<in> set xs" for xs
    using that by (induction xs) (auto simp: rev_image_eqI)
  with assms show ?thesis
    by (simp add: populate_def)
qed

lemma get_images_find_answers:
  assumes "db_fault e ImageFind = None"
  shows "\<exists>docs. get_images_find e w uid fl = (reply 200 (ImageList (map (populate w) docs)), w)
           \<and> sorted (map img_name docs)
           \<and> mset docs = filter_mset (\<lambda>i. img_owner i = uid \<and> img_folder i = fl) (mset (images w))"
proof (intro exI conjI)
  let ?docs = "sort_key img_name (filter (\<lambda>i. img_owner i = uid \<and> img_folder i = fl) (images w))"
  from assms show "get_images_find e w uid fl = (reply 200 (ImageList (map (populate w) ?docs)), w)"
    by (simp add: get_images_find_def Image_find_def awaited_def)
  show "sorted (map img_name ?docs)" by simp
  show "mset ?docs = filter_mset (\<lambda>i. img_owner i = uid \<and> img_folder i = fl) (mset (images w))"
    by simp
qed

text \<open>
  C5. A list request whose queries answer. With no folder parameter (absent or empty)
  the response is 200 with exactly the caller's images that have no folder field.
  With a folder parameter \<open>F\<close> it is 404 "Folder not found" when no folder has
  identifier \<open>F\<close> and the caller as owner, and otherwise 200 with exactly the
  caller's images whose folder is \<open>F\<close>. In both lists the names ascend, every
  image is populated, and (identifiers of folders being distinct) the expansion of an
  image of folder \<open>F\<close> carries the name and the path of that folder.
\<close>

theorem list_images:
  "(falsy folder_q \<and> db_fault e ImageFind = None \<longrightarrow>
      (\<exists>docs. get_images e w uid folder_q = (reply 200 (ImageList (map (populate w) docs)), w)
         \<and> sorted (map img_name docs)
         \<and> mset docs =
             filter_mset (\<lambda>i. img_owner i = uid \<and> img_folder i = None) (mset (images w))))
   \<and> (\<forall>F. folder_q = Some F \<and> F \<noteq> [] \<and> db_fault e FolderFindOne = None \<and>
        \<not> (\<exists>d\<in>set (folders w). folder_id d = F \<and> folder_owner d = uid) \<longrightarrow>
        get_images e w uid folder_q = (reply 404 (Message ''Folder not found''), w))
   \<and> (\<forall>F d. folder_q = Some F \<and> F \<noteq> [] \<and> db_fault e FolderFindOne = None \<and>
        d \<in> set (folders w) \<and> folder_id d = F \<and> folder_owner d = uid \<and>
        db_fault e ImageFind = None \<longrightarrow>
      (\<exists>docs. get_images e w uid folder_q = (reply 200 (ImageList (map (populate w) docs)), w)
         \<and> sorted (map img_name docs)
         \<and> mset docs =
             filter_mset (\<lambda>i. img_owner i = uid \<and> img_folder i = Some F) (mset (images w))
         \<and> (distinct (map folder_id (folders w)) \<longrightarrow>
              (\<forall>i\<in>set docs. snd (populate w i) =
                 Some \<lparr>fv_id = F, fv_name = folder_name d, fv_path = folder_path d\<rparr>))))"
proof (intro conjI allI impI)
  assume a: "falsy folder_q \<and> db_fault e ImageFind = None"
  then have "get_images e w uid folder_q = get_images_find e w uid None"
    by (cases folder_q) (simp_all add: get_images_def falsy_def)
  with a get_images_find_answers [of e w uid None]
  show "\<exists>docs. get_images e w uid folder_q = (reply 200 (ImageList (map (populate w) docs)), w)
         \<and> sorted (map img_name docs)
         \<and> mset docs =
             filter_mset (\<lambda>i. img_owner i = uid \<and> img_folder i = None) (mset (images w))"
    by simp
next
  fix F
  assume a: "folder_q = Some F \<and> F \<noteq> [] \<and> db_fault e FolderFindOne = None \<and>
        \<not> (\<exists>d\<in>set (folders w). folder_id d = F \<and> folder_owner d = uid)"
  then have "Folder_findOne e w F uid = Inr None"
    by (simp add: Folder_findOne_def awaited_def find_None_iff)
  with a show "get_images e w uid folder_q = (reply 404 (Message ''Folder not found''), w)"
    by (simp add: get_images_def)
next
  fix F d
  assume a: "folder_q = Some F \<and> F \<noteq> [] \<and> db_fault e FolderFindOne = None \<and>
        d \<in> set (folders w) \<and> folder_id d = F \<and> folder_owner d = uid \<and>
        db_fault e ImageFind = None"
  then have "find (\<lambda>d. folder_id d = F \<and> folder_owner d = uid) (folders w) \<noteq> None"
    by (auto simp: find_None_iff)
  with a obtain d' where "Folder_findOne e w F uid = Inr (Some d')"
    by (auto simp: Folder_findOne_def awaited_def)
  with a have g: "get_images e w uid folder_q = get_images_find e w uid (Some F)"
    by (simp add: get_images_def)
  from a have "db_fault e ImageFind = None" by simp
  from get_images_find_answers [OF this, of w uid "Some F"]
  obtain docs where docs:
    "get_images_find e w uid (Some F) = (reply 200 (ImageList (map (populate w) docs)), w)"
    "sorted (map img_name docs)"
    "mset docs = filter_mset (\<lambda>i. img_owner i = uid \<and> img_folder i = Some F) (mset (images w))"
    by blast
  have "\<forall>i\<in>set docs. img_folder i = Some F"
  proof
    fix i assume "i \<in> set docs"
    then have "i \<in># mset docs" by simp
    with docs(3) show "img_folder i = Some F" by simp
  qed
  with a have "distinct (map folder_id (folders w)) \<longrightarrow>
              (\<forall>i\<in>set docs. snd (populate w i) =
                 Some \<lparr>fv_id = F, fv_name = folder_name d, fv_path = folder_path d\<rparr>)"
    using populate_unique_folder [of w d] by auto
  with g docs
  show "\<exists>docs. get_images e w uid folder_q = (reply 200 (ImageList (map (populate w) docs)), w)
         \<and> sorted (map img_name docs)
         \<and> mset docs =
             filter_mset (\<lambda>i. img_owner i = uid \<and> img_folder i = Some F) (mset (images w))
         \<and> (distinct (map folder_id (folders w)) \<longrightarrow>
              (\<forall>i\<in>set docs. snd (populate w i) =
                 Some \<lparr>fv_id = F, fv_name = folder_name d, fv_path = folder_path d\<rparr>))"
    by auto
qed

theorem list_images_witness:
  "get_images calm store0 ''alice'' None = (reply 200 (ImageList [(unfiled, None)]), store0)
   \<and> get_images calm store0 ''bob'' (Some ''f1'')
       = (reply 404 (Message ''Folder not found''), store0)
   \<and> get_images calm store0 ''alice'' (Some ''f1'')
       = (reply 200 (ImageList [(dog, Some pets_view), (cat, Some pets_view)]), store0)"
proof (intro conjI)
  note ev = get_images_def get_images_find_def Image_find_def Folder_findOne_def awaited_def
    populate_def less_eq_char_def
  show "get_images calm store0 ''alice'' None
          = (reply 200 (ImageList [(unfiled, None)]), store0)"
    using list_images [of None calm store0 "''alice''", THEN conjunct1]
    by (simp add: ev sample_defs)
  show "get_images calm store0 ''bob'' (Some ''f1'')
          = (reply 404 (Message ''Folder not found''), store0)"
    using list_images [of "Some ''f1''" calm store0 "''bob''", THEN conjunct2, THEN conjunct1]
    by (simp add: sample_defs)
  show "get_images calm store0 ''alice'' (Some ''f1'')
          = (reply 200 (ImageList [(dog, Some pets_view), (cat, Some pets_view)]), store0)"
    using list_images [of "Some ''f1''" calm store0 "''alice''", THEN conjunct2, THEN conjunct2,
        rule_format, of "''f1''" pets]
    by (simp add: ev sample_defs)
qed

subsection \<open>Search: the query is a pattern\<close>

lemma plain_not_dot: "plain_char c \<Longrightarrow> c \<noteq> CHR ''.''"
  by (auto simp: plain_char_def metachar_def)

lemma parse_plain: "\<forall>c\<in>set q. plain_char c \<Longrightarrow> parse_pattern q = Some (map Lit q)"
  by (induction q) (simp_all add: plain_not_dot)

lemma match_here_literal:
  "match_here (map Lit q) s = starts_with (map lower_char s) (map lower_char q)"
proof (induction q arbitrary: s)
  case Nil
  then show ?case by simp
next
  case (Cons a q)
  then show ?case by (cases s) auto
qed

lemma match_anywhere_literal:
  "match_anywhere (map Lit q) s = str_includes (map lower_char s) (map lower_char q)"
proof (induction s)
  case Nil
  then show ?case by (cases q) simp_all
next
  case (Cons c s)
  have "match_here (map Lit q) (c # s)
          = starts_with (map lower_char (c # s)) (map lower_char q)"
    by (rule match_here_literal)
  with Cons show ?case by simp
qed

lemma regex_i_plain:
  "\<forall>c\<in>set q. plain_char c \<Longrightarrow>
     regex_i e q = Inr (\<lambda>s. str_includes (map lower_char s) (map lower_char q))"
  by (simp add: regex_i_def parse_plain match_anywhere_literal fun_eq_iff)

lemma search_spec_capped: "length (search_spec w uid q) \<le> 50"
  by (simp add: search_spec_def)

lemma search_spec_sorted: "sorted (map (img_name \<circ> fst) (search_spec w uid q))"
proof -
  have "map (img_name \<circ> fst) (map (populate w) xs) = map img_name xs" for xs
    by (induction xs) (simp_all add: populate_def)
  then have "map (img_name \<circ> fst) (search_spec w uid q)
      = take 50 (map img_name (sort_key img_name
          (filter (\<lambda>i. img_owner i = uid \<and>
                     str_includes (map lower_char (img_name i)) (map lower_char q))
             (images w))))"
    by (simp add: search_spec_def take_map)
  then show ?thesis by (simp add: sorted_wrt_take)
qed

lemma trim_q: "trim ''c.t'' = ''c.t''" "trim ''  '' = []" "trim '' PNG '' = ''PNG''"
  by (simp_all add: trim_def is_white_space_def)

lemma plain_PNG: "\<forall>c\<in>set ''PNG''. plain_char c"
  by (simp add: plain_char_def metachar_def less_eq_char_def)

lemma spec_PNG:
  "search_spec store0 ''alice'' ''PNG'' = [(dog, Some pets_view), (cat, Some pets_view)]"
  by (simp add: search_spec_def populate_def sample_defs lower_char_def less_eq_char_def)

lemma take_sorted_names:
  "sorted (map img_name (take n (sort_key img_name xs)))"
  by (simp add: take_map [symmetric] sorted_wrt_take)

lemma search_answered:
  assumes "db_fault e ImageFind = None" and "regex_i e pat = Inr m"
  shows "Image_find_regex e w uid pat =
           Inr (map (populate w)
                  (take 50
                     (sort_key img_name
                        (filter (\<lambda>i. img_owner i = uid \<and> m (img_name i)) (images w)))))"
  using assms by (simp add: Image_find_regex_def)

lemma search_rejected:
  assumes "db_fault e ImageFind = None" and "regex_i e pat = Inl err"
  shows "Image_find_regex e w uid pat = Inl err"
  using assms by (simp add: Image_find_regex_def)

lemma trim_paren: "trim ''(('' = ''((''"
  by (simp add: trim_def is_white_space_def)

lemma regex_samples:
  "regex_i calm ''(('' = Inl (failure ''Regular expression is invalid'')"
  "regex_i calm ''c.t'' = Inr (match_anywhere [Lit CHR ''c'', AnyChar, Lit CHR ''t''])"
  by (simp_all add: regex_i_def plain_char_def metachar_def less_eq_char_def calm_def)

lemma hits_c_t:
  "take 50 (sort_key img_name
     (filter (\<lambda>i. img_owner i = ''alice'' \<and>
                match_anywhere [Lit CHR ''c'', AnyChar, Lit CHR ''t''] (img_name i))
        (images store0))) = [cat]"
  by (simp add: sample_defs lower_char_def)

text \<open>
  C4, as stated, fails: the trimmed query is handed to the database as a regular
  expression, not as a literal. The caller owns an image named "cat.png"; the query
  "c.t" returns it, though the name does not contain "c.t" in any letter case, and the
  search of the specification returns nothing.
\<close>

theorem search_dot_counterexample:
  "get_search calm store0 ''alice'' (Some ''c.t'')
     = (reply 200 (ImageList [(cat, Some pets_view)]), store0)
   \<and> \<not> str_includes (map lower_char (img_name cat)) (map lower_char (trim ''c.t''))
   \<and> search_spec store0 ''alice'' (trim ''c.t'') = []"
  by (simp add: get_search_def trim_q Image_find_regex_def regex_i_def search_spec_def
      populate_def sample_defs lower_char_def less_eq_char_def plain_char_def metachar_def)

text \<open>
  C4, amended. A query that is absent, empty or blank gives the empty list, whatever
  the store holds and whether or not the database answers. Otherwise the trimmed query
  is compiled as a case-insensitive regular expression. With the database answering:
  a pattern that is rejected gives 500 "Server error while searching images"; a
  pattern that compiles gives exactly the caller's images, of any folder, whose name
  the pattern matches, by ascending name, cut after the first 50 (so all of them when
  there are at most 50). A trimmed query of printable ASCII characters that are not
  metacharacters compiles to containment as a case-insensitive substring, and the
  result is then the search of the specification.
\<close>

theorem search_by_pattern:
  "(falsy q \<or> (\<exists>s. q = Some s \<and> trim s = []) \<longrightarrow>
      get_search e w uid q = (reply 200 (ImageList []), w))
   \<and> (\<forall>s err. q = Some s \<and> trim s \<noteq> [] \<and> db_fault e ImageFind = None \<and>
        regex_i e (trim s) = Inl err \<longrightarrow>
        get_search e w uid q =
          (reply 500 (Message ''Server error while searching images''),
           console_error ''Search images error:'' err w))
   \<and> (\<forall>s m. q = Some s \<and> trim s \<noteq> [] \<and> db_fault e ImageFind = None \<and>
        regex_i e (trim s) = Inr m \<longrightarrow>
        (\<exists>docs. get_search e w uid q = (reply 200 (ImageList (map (populate w) docs)), w)
           \<and> docs = take 50 (sort_key img_name
                       (filter (\<lambda>i. img_owner i = uid \<and> m (img_name i)) (images w)))
           \<and> length docs \<le> 50
           \<and> sorted (map img_name docs)
           \<and> (\<forall>i\<in>set docs. i \<in> set (images w) \<and> img_owner i = uid \<and> m (img_name i))
           \<and> (length (filter (\<lambda>i. img_owner i = uid \<and> m (img_name i)) (images w)) \<le> 50 \<longrightarrow>
                mset docs =
                  filter_mset (\<lambda>i. img_owner i = uid \<and> m (img_name i)) (mset (images w)))))
   \<and> (\<forall>s. q = Some s \<and> trim s \<noteq> [] \<and> (\<forall>c\<in>set (trim s). plain_char c) \<longrightarrow>
        regex_i e (trim s) =
          Inr (\<lambda>n. str_includes (map lower_char n) (map lower_char (trim s))))
   \<and> (\<forall>s. q = Some s \<and> trim s \<noteq> [] \<and> (\<forall>c\<in>set (trim s). plain_char c) \<and>
        db_fault e ImageFind = None \<longrightarrow>
        get_search e w uid q = (reply 200 (ImageList (search_spec w uid (trim s))), w)
        \<and> length (search_spec w uid (trim s)) \<le> 50
        \<and> sorted (map (img_name \<circ> fst) (search_spec w uid (trim s))))"
proof (intro conjI allI impI)
  assume "falsy q \<or> (\<exists>s. q = Some s \<and> trim s = [])"
  then show "get_search e w uid q = (reply 200 (ImageList []), w)"
    by (cases q) (auto simp: get_search_def falsy_def)
next
  fix s err
  assume a: "q = Some s \<and> trim s \<noteq> [] \<and> db_fault e ImageFind = None \<and>
        regex_i e (trim s) = Inl err"
  then have "s \<noteq> []" by (auto simp: trim_def)
  moreover from a have "Image_find_regex e w uid (trim s) = Inl err"
    by (simp add: search_rejected)
  ultimately show "get_search e w uid q =
          (reply 500 (Message ''Server error while searching images''),
           console_error ''Search images error:'' err w)"
    using a by (simp add: get_search_def)
next
  fix s m
  assume a: "q = Some s \<and> trim s \<noteq> [] \<and> db_fault e ImageFind = None \<and>
        regex_i e (trim s) = Inr m"
  let ?hits = "filter (\<lambda>i. img_owner i = uid \<and> m (img_name i)) (images w)"
  let ?docs = "take 50 (sort_key img_name ?hits)"
  from a have n: "s \<noteq> []" by (auto simp: trim_def)
  from a have "Image_find_regex e w uid (trim s) = Inr (map (populate w) ?docs)"
    by (simp add: search_answered)
  with a n have r: "get_search e w uid q = (reply 200 (ImageList (map (populate w) ?docs)), w)"
    by (simp add: get_search_def)
  have len: "length ?docs \<le> 50" by simp
  have srt: "sorted (map img_name ?docs)" by (rule take_sorted_names)
  have mem: "\<forall>i\<in>set ?docs. i \<in> set (images w) \<and> img_owner i = uid \<and> m (img_name i)"
  proof
    fix i
    assume "i \<in> set ?docs"
    then have "i \<in> set (sort_key img_name ?hits)" by (rule in_set_takeD)
    then show "i \<in> set (images w) \<and> img_owner i = uid \<and> m (img_name i)" by simp
  qed
  have all: "length ?hits \<le> 50 \<longrightarrow>
               mset ?docs = filter_mset (\<lambda>i. img_owner i = uid \<and> m (img_name i)) (mset (images w))"
    by simp
  from r len srt mem all
  show "\<exists>docs. get_search e w uid q = (reply 200 (ImageList (map (populate w) docs)), w)
           \<and> docs = take 50 (sort_key img_name
                       (filter (\<lambda>i. img_owner i = uid \<and> m (img_name i)) (images w)))
           \<and> length docs \<le> 50
           \<and> sorted (map img_name docs)
           \<and> (\<forall>i\<in>set docs. i \<in> set (images w) \<and> img_owner i = uid \<and> m (img_name i))
           \<and> (length (filter (\<lambda>i. img_owner i = uid \<and> m (img_name i)) (images w)) \<le> 50 \<longrightarrow>
                mset docs =
                  filter_mset (\<lambda>i. img_owner i = uid \<and> m (img_name i)) (mset (images w)))"
    by blast
next
  fix s
  assume "q = Some s \<and> trim s \<noteq> [] \<and> (\<forall>c\<in>set (trim s). plain_char c)"
  then show "regex_i e (trim s) =
          Inr (\<lambda>n. str_includes (map lower_char n) (map lower_char (trim s)))"
    by (simp add: regex_i_plain)
next
  fix s
  assume a: "q = Some s \<and> trim s \<noteq> [] \<and> (\<forall>c\<in>set (trim s). plain_char c) \<and>
        db_fault e ImageFind = None"
  then have "s \<noteq> []" by (auto simp: trim_def)
  moreover from a have "Image_find_regex e w uid (trim s) = Inr (search_spec w uid (trim s))"
    by (simp add: Image_find_regex_def regex_i_plain search_spec_def)
  ultimately show "get_search e w uid q
      = (reply 200 (ImageList (search_spec w uid (trim s))), w)"
    using a by (simp add: get_search_def)
  show "length (search_spec w uid (trim s)) \<le> 50" by (rule search_spec_capped)
  show "sorted (map (img_name \<circ> fst) (search_spec w uid (trim s)))"
    by (rule search_spec_sorted)
qed

theorem search_by_pattern_witness:
  "get_search storage_down store0 ''alice'' (Some ''  '') = (reply 200 (ImageList []), store0)
   \<and> get_search calm store0 ''alice'' (Some ''(('')
       = (reply 500 (Message ''Server error while searching images''),
          console_error ''Search images error:''
            (failure ''Regular expression is invalid'') store0)
   \<and> get_search calm store0 ''alice'' (Some ''c.t'')
       = (reply 200 (ImageList [(cat, Some pets_view)]), store0)
   \<and> regex_i calm ''PNG'' = Inr (\<lambda>n. str_includes (map lower_char n) ''png'')
   \<and> get_search calm store0 ''alice'' (Some '' PNG '')
       = (reply 200 (ImageList [(dog, Some pets_view), (cat, Some pets_view)]), store0)"
proof (intro conjI)
  have nf: "db_fault calm ImageFind = None" by (simp add: calm_def)
  show "get_search storage_down store0 ''alice'' (Some ''  '')
          = (reply 200 (ImageList []), store0)"
    using search_by_pattern [of "Some ''  ''" storage_down store0 "''alice''", THEN conjunct1]
    by (simp add: trim_q)
  show "get_search calm store0 ''alice'' (Some ''(('')
       = (reply 500 (Message ''Server error while searching images''),
          console_error ''Search images error:''
            (failure ''Regular expression is invalid'') store0)"
    using nf search_by_pattern [of "Some ''((''" calm store0 "''alice''",
        THEN conjunct2, THEN conjunct1, rule_format,
        where s = "''((''" and err = "failure ''Regular expression is invalid''"]
    by (simp add: trim_paren regex_samples)
  have "\<exists>docs. get_search calm store0 ''alice'' (Some ''c.t'')
            = (reply 200 (ImageList (map (populate store0) docs)), store0) \<and> docs = [cat]"
    using nf search_by_pattern [of "Some ''c.t''" calm store0 "''alice''",
        THEN conjunct2, THEN conjunct2, THEN conjunct1, rule_format,
        where s = "''c.t''" and m = "match_anywhere [Lit CHR ''c'', AnyChar, Lit CHR ''t'']"]
    by (simp add: trim_q regex_samples hits_c_t del: match_anywhere.simps)
  then show "get_search calm store0 ''alice'' (Some ''c.t'')
       = (reply 200 (ImageList [(cat, Some pets_view)]), store0)"
    by (auto simp: populate_def store0_def cat_def pets_def pets_view_def)
  show "regex_i calm ''PNG'' = Inr (\<lambda>n. str_includes (map lower_char n) ''png'')"
    using plain_PNG search_by_pattern [of "Some '' PNG ''" calm store0 "''alice''",
        THEN conjunct2, THEN conjunct2, THEN conjunct2, THEN conjunct1, rule_format,
        where s = "'' PNG ''"]
    by (simp add: trim_q lower_char_def)
  from nf plain_PNG
  show "get_search calm store0 ''alice'' (Some '' PNG '')
       = (reply 200 (ImageList [(dog, Some pets_view), (cat, Some pets_view)]), store0)"
    using search_by_pattern [of "Some '' PNG ''" calm store0 "''alice''",
        THEN conjunct2, THEN conjunct2, THEN conjunct2, THEN conjunct2, rule_format,
        where s = "'' PNG ''"]
    by (simp add: trim_q spec_PNG)
qed

subsection \<open>Rename: an image does not conflict with itself\<close>

lemma populate_folder_id:
  assumes "img_folder x = None \<or> (\<exists>d\<in>set (folders w). Some (folder_id d) = img_folder x)"
  shows "map_option fv_id (snd (populate w x)) = img_folder x"
proof (cases "img_folder x")
  case None
  then show ?thesis by (simp add: populate_def)
next
  case (Some f)
  with assms have "find (\<lambda>d. folder_id d = f) (folders w) \<noteq> None"
    by (auto simp: find_None_iff)
  then obtain d where d: "find (\<lambda>d. folder_id d = f) (folders w) = Some d" by blast
  then have "folder_id d = f" by (auto simp: find_Some_iff)
  with Some d show ?thesis by (simp add: populate_def)
qed

lemma replace_same:
  "distinct (map img_id xs) \<Longrightarrow> x \<in> set xs \<Longrightarrow> replace_image x xs = xs"
proof (induction xs)
  case Nil
  then show ?case by simp
next
  case (Cons a xs)
  then show ?case by (cases "a = x") (auto simp: rev_image_eqI)
qed

text \<open>
  C8. A rename request whose new trimmed name is the image's own current name: the
  duplicate check leaves the image itself out by its identifier, so with no other
  image of that owner, folder and name the check finds nothing; the rename succeeds
  with 200 and returns the image with its folder expanded. The stored document is
  replaced by itself, so (identifiers being distinct) the store is as before. The
  lookups and the save are taken to answer, and the folder of the image, if it has
  one, to exist.
\<close>

theorem rename_to_own_name:
  assumes "db_fault e ImageFindOne = None"
    and "find (\<lambda>i. img_id i = iid \<and> img_owner i = uid) (images w) = Some x"
    and "trim name = img_name x" and "img_name x \<noteq> []"
    and "img_folder x = None \<or> (\<exists>d\<in>set (folders w). Some (folder_id d) = img_folder x)"
    and "db_fault e ImageFindDuplicate = None"
    and "\<forall>i\<in>set (images w). img_id i \<noteq> img_id x \<longrightarrow>
           \<not> (img_owner i = uid \<and> img_folder i = img_folder x \<and> img_name i = img_name x)"
    and "db_fault e ImageSave = None"
  shows "fst (put_image e w uid iid (Some name)) = reply 200 (ImageBody (populate w x))
         \<and> snd (put_image e w uid iid (Some name)) = w\<lparr>images := replace_image x (images w)\<rparr>
         \<and> (distinct (map img_id (images w)) \<longrightarrow> snd (put_image e w uid iid (Some name)) = w)"
proof -
  from assms(3,4) have n: "name \<noteq> []" "trim name \<noteq> []"
    by (auto simp: trim_def)
  from assms(1,2) have f: "Image_findOne e w iid uid = Inr (Some x)"
    by (simp add: Image_findOne_def awaited_def)
  obtain fv where p: "populate w x = (x, fv)"
    by (simp add: populate_def)
  from assms(5) have "map_option fv_id (snd (populate w x)) = img_folder x"
    by (rule populate_folder_id)
  with p have fid: "map_option fv_id fv = img_folder x" by simp
  from assms(7) have "find (\<lambda>i. img_owner i = uid \<and> img_folder i = img_folder x \<and>
             img_name i = img_name x \<and> Some (img_id i) \<noteq> Some (img_id x)) (images w) = None"
    by (auto simp: find_None_iff)
  with assms(6) have d: "Image_findDuplicate e w uid (img_folder x) (img_name x)
                           (Some (img_id x)) = Inr None"
    by (simp add: Image_findDuplicate_def awaited_def)
  have r: "put_image e w uid iid (Some name) =
          (reply 200 (ImageBody (populate w x)), w\<lparr>images := replace_image x (images w)\<rparr>)"
    using n f d fid assms(3,8)
    by (simp add: put_image_def Let_def p)
  from assms(2) have "x \<in> set (images w)" by (auto simp: find_Some_iff)
  then have "distinct (map img_id (images w)) \<longrightarrow> replace_image x (images w) = images w"
    by (simp add: replace_same)
  with r show ?thesis by simp
qed

theorem rename_to_own_name_witness:
  "fst (put_image calm store0 ''alice'' ''i1'' (Some '' cat.png ''))
     = reply 200 (ImageBody (cat, Some pets_view))
   \<and> snd (put_image calm store0 ''alice'' ''i1'' (Some '' cat.png '')) = store0"
proof -
  have "trim '' cat.png '' = ''cat.png''" by (simp add: trim_def is_white_space_def)
  then show ?thesis
    using rename_to_own_name [of calm "''i1''" "''alice''" store0 cat "'' cat.png ''"]
    by (simp add: sample_defs populate_def)
qed

subsection \<open>Names are compared exactly\<close>

lemma trim_CAT: "trim ''CAT.png'' = ''CAT.png''"
  by (simp add: trim_def is_white_space_def)

lemma cat_CAT: "differ_only_in_case ''cat.png'' ''CAT.png''"
  by (simp add: differ_only_in_case_def lower_char_def)

text \<open>
  C10. The duplicate checks of upload and rename compare the trimmed name exactly.
  Let an image of the same owner and folder have a name that differs from the new
  trimmed name only in letter case, and let no image there (for rename: no other
  image) have exactly the new name. Then the upload is not refused as a duplicate: with
  the storage and the database answering it is a 201 and the new image is stored under
  that name. And the rename is not refused: it is a 200 with the image under its new
  name, which is then the name of the stored document. The worked example renames
  "Dog.png" to "CAT.png" beside the sibling "cat.png".
\<close>

theorem case_variant_no_conflict:
  "(\<forall>name fid f folderDoc result y.
      body_name req = Some name \<and> trim name \<noteq> [] \<and> body_folderId req = Some fid \<and>
      fid \<noteq> [] \<and> req_file req = Some f \<and>
      Folder_findOne e w fid uid = Inr (Some folderDoc) \<and>
      db_fault e ImageFindDuplicate = None \<and>
      y \<in> set (images w) \<and> img_owner y = uid \<and> img_folder y = Some fid \<and>
      differ_only_in_case (img_name y) (trim name) \<and>
      \<not> (\<exists>i\<in>set (images w). img_owner i = uid \<and> img_folder i = Some fid \<and>
                               img_name i = trim name) \<and>
      uploadToCloudinary e (file_buffer f) (placement e uid name fid) = Inr result \<and>
      db_fault e ImageSave = None \<and> db_fault e ImagePopulate = None \<longrightarrow>
      status (fst (post_upload e w uid req)) = 201 \<and>
      images (snd (post_upload e w uid req)) =
        images w @
        [\<lparr>img_id = new_object_id e, img_name = trim name, cloudinaryUrl = secure_url result,
          cloudinaryPublicId = public_id result, img_folder = Some fid, img_owner = uid,
          img_size = file_size f, img_mimetype = file_mimetype f\<rparr>])
   \<and> (\<forall>name x y.
      trim name \<noteq> [] \<and> db_fault e ImageFindOne = None \<and>
      find (\<lambda>i. img_id i = iid \<and> img_owner i = uid) (images w) = Some x \<and>
      (img_folder x = None \<or> (\<exists>d\<in>set (folders w). Some (folder_id d) = img_folder x)) \<and>
      db_fault e ImageFindDuplicate = None \<and>
      y \<in> set (images w) \<and> img_owner y = uid \<and> img_folder y = img_folder x \<and>
      differ_only_in_case (img_name y) (trim name) \<and>
      \<not> (\<exists>i\<in>set (images w). img_id i \<noteq> img_id x \<and> img_owner i = uid \<and>
                               img_folder i = img_folder x \<and> img_name i = trim name) \<and>
      db_fault e ImageSave = None \<longrightarrow>
      put_image e w uid iid (Some name) =
        (reply 200 (ImageBody (x\<lparr>img_name := trim name\<rparr>, snd (populate w x))),
         w\<lparr>images := replace_image (x\<lparr>img_name := trim name\<rparr>) (images w)\<rparr>))"
proof (intro conjI allI impI)
  fix name fid f folderDoc result y
  assume a: "body_name req = Some name \<and> trim name \<noteq> [] \<and> body_folderId req = Some fid \<and>
      fid \<noteq> [] \<and> req_file req = Some f \<and>
      Folder_findOne e w fid uid = Inr (Some folderDoc) \<and>
      db_fault e ImageFindDuplicate = None \<and>
      y \<in> set (images w) \<and> img_owner y = uid \<and> img_folder y = Some fid \<and>
      differ_only_in_case (img_name y) (trim name) \<and>
      \<not> (\<exists>i\<in>set (images w). img_owner i = uid \<and> img_folder i = Some fid \<and>
                               img_name i = trim name) \<and>
      uploadToCloudinary e (file_buffer f) (placement e uid name fid) = Inr result \<and>
      db_fault e ImageSave = None \<and> db_fault e ImagePopulate = None"
  then have n: "name \<noteq> []" by (auto simp: trim_def)
  from a have d: "Image_findDuplicate e w uid (Some fid) (trim name) None = Inr None"
    by (simp add: Image_findDuplicate_def awaited_def find_None_iff)
  from a have u: "upload_and_save e w uid name fid f =
      Inr (populate
             (w\<lparr>images := images w @
               [\<lparr>img_id = new_object_id e, img_name = trim name,
                 cloudinaryUrl = secure_url result, cloudinaryPublicId = public_id result,
                 img_folder = Some fid, img_owner = uid, img_size = file_size f,
                 img_mimetype = file_mimetype f\<rparr>]\<rparr>)
             \<lparr>img_id = new_object_id e, img_name = trim name,
               cloudinaryUrl = secure_url result, cloudinaryPublicId = public_id result,
               img_folder = Some fid, img_owner = uid, img_size = file_size f,
               img_mimetype = file_mimetype f\<rparr>,
           w\<lparr>images := images w @
               [\<lparr>img_id = new_object_id e, img_name = trim name,
                 cloudinaryUrl = secure_url result, cloudinaryPublicId = public_id result,
                 img_folder = Some fid, img_owner = uid, img_size = file_size f,
                 img_mimetype = file_mimetype f\<rparr>]\<rparr>)"
    by (simp add: upload_and_save_def Let_def)
  from a n d u show "status (fst (post_upload e w uid req)) = 201"
    by (simp add: post_upload_def reply_def)
  from a n d u show "images (snd (post_upload e w uid req)) =
        images w @
        [\<lparr>img_id = new_object_id e, img_name = trim name, cloudinaryUrl = secure_url result,
          cloudinaryPublicId = public_id result, img_folder = Some fid, img_owner = uid,
          img_size = file_size f, img_mimetype = file_mimetype f\<rparr>]"
    by (simp add: post_upload_def)
next
  fix name x y
  assume a: "trim name \<noteq> [] \<and> db_fault e ImageFindOne = None \<and>
      find (\<lambda>i. img_id i = iid \<and> img_owner i = uid) (images w) = Some x \<and>
      (img_folder x = None \<or> (\<exists>d\<in>set (folders w). Some (folder_id d) = img_folder x)) \<and>
      db_fault e ImageFindDuplicate = None \<and>
      y \<in> set (images w) \<and> img_owner y = uid \<and> img_folder y = img_folder x \<and>
      differ_only_in_case (img_name y) (trim name) \<and>
      \<not> (\<exists>i\<in>set (images w). img_id i \<noteq> img_id x \<and> img_owner i = uid \<and>
                               img_folder i = img_folder x \<and> img_name i = trim name) \<and>
      db_fault e ImageSave = None"
  then have n: "name \<noteq> []" by (auto simp: trim_def)
  from a have f: "Image_findOne e w iid uid = Inr (Some x)"
    by (simp add: Image_findOne_def awaited_def)
  obtain fv where p: "populate w x = (x, fv)"
    by (simp add: populate_def)
  from a have "map_option fv_id (snd (populate w x)) = img_folder x"
    by (intro populate_folder_id) simp
  with p have fid: "map_option fv_id fv = img_folder x" by simp
  from a have "find (\<lambda>i. img_owner i = uid \<and> img_folder i = img_folder x \<and>
             img_name i = trim name \<and> Some (img_id i) \<noteq> Some (img_id x)) (images w) = None"
    by (auto simp: find_None_iff)
  with a have d: "Image_findDuplicate e w uid (img_folder x) (trim name)
                           (Some (img_id x)) = Inr None"
    by (simp add: Image_findDuplicate_def awaited_def)
  from a n f d fid show "put_image e w uid iid (Some name) =
        (reply 200 (ImageBody (x\<lparr>img_name := trim name\<rparr>, snd (populate w x))),
         w\<lparr>images := replace_image (x\<lparr>img_name := trim name\<rparr>) (images w)\<rparr>)"
    by (simp add: put_image_def Let_def p)
qed

theorem case_variant_no_conflict_witness:
  "status (fst (post_upload calm store0 ''alice'' (upload_of ''CAT.png'' png))) = 201
   \<and> images (snd (post_upload calm store0 ''alice'' (upload_of ''CAT.png'' png))) =
       [dog, cat, unfiled,
        \<lparr>img_id = ''i9'', img_name = ''CAT.png'', cloudinaryUrl = ''https://cdn/k9'',
          cloudinaryPublicId = ''k9'', img_folder = Some ''f1'', img_owner = ''alice'',
          img_size = 2000, img_mimetype = ''image/png''\<rparr>]
   \<and> put_image calm store0 ''alice'' ''i2'' (Some ''CAT.png'') =
       (reply 200 (ImageBody (dog\<lparr>img_name := ''CAT.png''\<rparr>, Some pets_view)),
        store0\<lparr>images := [dog\<lparr>img_name := ''CAT.png''\<rparr>, cat, unfiled]\<rparr>)
   \<and> put_image calm store0 ''alice'' ''i1'' (Some ''CAT.png'') =
       (reply 200 (ImageBody (cat\<lparr>img_name := ''CAT.png''\<rparr>, Some pets_view)),
        store0\<lparr>images := [dog, cat\<lparr>img_name := ''CAT.png''\<rparr>, unfiled]\<rparr>)"
proof -
  note t = case_variant_no_conflict [where e = calm and w = store0 and uid = "''alice''"]
  have up: "status (fst (post_upload calm store0 ''alice'' (upload_of ''CAT.png'' png))) = 201
   \<and> images (snd (post_upload calm store0 ''alice'' (upload_of ''CAT.png'' png))) =
       [dog, cat, unfiled,
        \<lparr>img_id = ''i9'', img_name = ''CAT.png'', cloudinaryUrl = ''https://cdn/k9'',
          cloudinaryPublicId = ''k9'', img_folder = Some ''f1'', img_owner = ''alice'',
          img_size = 2000, img_mimetype = ''image/png''\<rparr>]"
    using cat_CAT
      t [of "upload_of ''CAT.png'' png", THEN conjunct1, rule_format,
         where name = "''CAT.png''" and fid = "''f1''" and f = png and folderDoc = pets
           and result = "\<lparr>secure_url = ''https://cdn/k9'', public_id = ''k9''\<rparr>"
           and y = cat]
    by (simp add: trim_CAT store0_def cat_def dog_def unfiled_def pets_def calm_def png_def
        upload_of_def Folder_findOne_def awaited_def)
  have sibling: "put_image calm store0 ''alice'' ''i2'' (Some ''CAT.png'') =
       (reply 200 (ImageBody (dog\<lparr>img_name := ''CAT.png''\<rparr>, Some pets_view)),
        store0\<lparr>images := [dog\<lparr>img_name := ''CAT.png''\<rparr>, cat, unfiled]\<rparr>)"
    using cat_CAT
      t [of _ "''i2''", THEN conjunct2, rule_format,
         where name = "''CAT.png''" and x = dog and y = cat]
    by (simp add: trim_CAT store0_def cat_def dog_def unfiled_def pets_def pets_view_def
        calm_def populate_def)
  have own: "put_image calm store0 ''alice'' ''i1'' (Some ''CAT.png'') =
       (reply 200 (ImageBody (cat\<lparr>img_name := ''CAT.png''\<rparr>, Some pets_view)),
        store0\<lparr>images := [dog, cat\<lparr>img_name := ''CAT.png''\<rparr>, unfiled]\<rparr>)"
    using cat_CAT
      t [of _ "''i1''", THEN conjunct2, rule_format,
         where name = "''CAT.png''" and x = cat and y = cat]
    by (simp add: trim_CAT store0_def cat_def dog_def unfiled_def pets_def pets_view_def
        calm_def populate_def)
  from up sibling own show ?thesis by simp
qed

subsection \<open>The intake: the size message\<close>

text \<open>
  C9. Whenever the intake ends an upload with the library's \<^verbatim>\<open>LIMIT_FILE_SIZE\<close>
  error, the error-handling middleware answers 400 with the message
  "File size too large. Maximum size is 5MB."; the handler does not run and the store
  is untouched. That happens for a file of an allowed type that the library's size
  check refuses under the configured limit, and the message is the same for every
  configuration and every such check.
\<close>

theorem size_message_fixed:
  "(\<forall>m. upload_single cfg exceeds req = Some (MulterError ''LIMIT_FILE_SIZE'' m) \<longrightarrow>
      upload_route cfg exceeds e w uid req =
        (Sent (reply 400 (Message ''File size too large. Maximum size is 5MB.'')), w))
   \<and> (\<forall>f. req_file req = Some f \<and> file_mimetype f \<in> set (allowedTypes cfg) \<and>
        exceeds (fileSize cfg) f \<longrightarrow>
      upload_single cfg exceeds req = Some (MulterError ''LIMIT_FILE_SIZE'' ''File too large'')
      \<and> upload_route cfg exceeds e w uid req =
        (Sent (reply 400 (Message ''File size too large. Maximum size is 5MB.'')), w))"
  by (simp add: upload_route_def upload_single_def fileFilter_def)

theorem size_message_fixed_witness:
  "fileSize small_limit = 1000
   \<and> upload_single small_limit beyond (upload_of ''new.png'' png) =
       Some (MulterError ''LIMIT_FILE_SIZE'' ''File too large'')
   \<and> upload_route small_limit beyond calm store0 ''alice'' (upload_of ''new.png'' png) =
       (Sent (reply 400 (Message ''File size too large. Maximum size is 5MB.'')), store0)"
proof -
  note t = size_message_fixed [of small_limit beyond "upload_of ''new.png'' png" calm store0
      "''alice''"]
  have a: "upload_single small_limit beyond (upload_of ''new.png'' png) =
       Some (MulterError ''LIMIT_FILE_SIZE'' ''File too large'')"
    using t [THEN conjunct2, rule_format, of png]
    by (simp add: small_limit_def fileSize_def allowedTypes_def png_def upload_of_def
        beyond_def)
  from a t [THEN conjunct1, rule_format, of "''File too large''"]
  have "upload_route small_limit beyond calm store0 ''alice'' (upload_of ''new.png'' png) =
       (Sent (reply 400 (Message ''File size too large. Maximum size is 5MB.'')), store0)"
    by simp
  with a show ?thesis by (simp add: small_limit_def fileSize_def)
qed

subsection \<open>The intake: a file of a type that is not allowed\<close>

lemma type_rejection_passed_on:
  assumes "req_file req = Some f" and "file_mimetype f \<notin> set (allowedTypes cfg)"
  shows "upload_route cfg exceeds e w uid req =
           (Next (OtherError
              \<lparr>err_name = ''Error'',
               err_message = ''Invalid file type. Only JPEG, PNG and GIF images are allowed.'',
               err_errors = []\<rparr>),
            w)"
  using assms by (simp add: upload_route_def upload_single_def fileFilter_def)

text \<open>
  C6. The code at a PDF upload under the default configuration, whatever the size
  check: the file filter rejects the file before the handler runs, with a plain error.
  The error-handling middleware answers only errors of the intake library's own class,
  so it passes this one on with \<^verbatim>\<open>next(error)\<close>: the router sends no 400. The
  branch that turns an "Invalid file type" message into a 400 is in the
  \<^verbatim>\<open>catch\<close> of the handler, which this error never reaches.
\<close>

theorem file_type_error_passed_on:
  "upload_route defaults exceeds calm store0 ''alice'' (upload_of ''new.pdf'' pdf) =
     (Next (OtherError
        \<lparr>err_name = ''Error'',
         err_message = ''Invalid file type. Only JPEG, PNG and GIF images are allowed.'',
         err_errors = []\<rparr>),
      store0)"
  by (simp add: upload_route_def upload_single_def fileFilter_def allowedTypes_def
      defaults_def pdf_def upload_of_def)

subsection \<open>Upload: a validation error on save\<close>

lemma save_error_inner_catch:
  assumes "body_name req = Some name" and "trim name \<noteq> []"
    and "body_folderId req = Some folderId" and "folderId \<noteq> []"
    and "req_file req = Some f"
    and "Folder_findOne e w folderId uid = Inr (Some folderDoc)"
    and "Image_findDuplicate e w uid (Some folderId) (trim name) None = Inr None"
    and "uploadToCloudinary e (file_buffer f) (placement e uid name folderId) = Inr result"
    and "db_fault e ImageSave = Some err"
  shows "post_upload e w uid req =
           (reply 500 (Message ''Failed to upload image to cloud storage''),
            console_error ''Cloudinary upload error:'' err w)"
proof -
  from assms(2) have "name \<noteq> []" by (rule trim_nonempty)
  with assms show ?thesis
    by (simp add: post_upload_def upload_and_save_def Let_def)
qed

text \<open>
  C7. The code at an upload that passes every check, whose storage call succeeds and
  whose \<^verbatim>\<open>save\<close> throws a validation error with the one message
  "Image name is too long": \<^verbatim>\<open>save\<close> stands inside the inner \<^verbatim>\<open>try\<close>, whose
  \<^verbatim>\<open>catch\<close> answers 500 "Failed to upload image to cloud storage". The outer
  \<^verbatim>\<open>catch\<close>, which would answer 400 with the joined messages, is never given
  this error.
\<close>

theorem save_validation_error_answered_500:
  "post_upload save_rejects store0 ''alice'' (upload_of ''new.png'' png) =
     (reply 500 (Message ''Failed to upload image to cloud storage''),
      console_error ''Cloudinary upload error:'' name_too_long store0)
   \<and> upload_catch store0 name_too_long =
     (reply 400 (Message ''Image name is too long''),
      console_error ''Upload image error:'' name_too_long store0)"
  by (simp add: post_upload_def upload_and_save_def upload_catch_def trim_samples
      Folder_findOne_def Image_findDuplicate_def awaited_def
      save_rejects_def calm_def store0_def cat_def dog_def unfiled_def pets_def png_def
      upload_of_def name_too_long_def)

end
